theory Spec2Isabelle
  imports Complex_Main
begin

section \<open>Audio samples, frames and frame-processor results\<close>

text \<open>
  An element of a \<^verbatim>\<open>Float32Array\<close>: a finite number (both signed zeros are the
  real \<open>0\<close>), a NaN, or an infinity with its sign. Only the comparison with zero and the
  number of samples matter below, so finite values are not rounded to binary32.
\<close>

datatype sample = Sample real | NotANumber | Infinite bool

text \<open>The test \<^verbatim>\<open>s === 0\<close>: true for both zeros, false for NaN and the infinities.\<close>

fun strictEqZero :: "sample \<Rightarrow> bool" where
  "strictEqZero (Sample r) = (r = 0)"
| "strictEqZero NotANumber = False"
| "strictEqZero (Infinite _) = False"

record Frame =
  samples :: "sample list"
  isEmpty :: bool

text \<open>
  Line 181 of \<^verbatim>\<open>real-time-vad.ts\<close>:
  \<^verbatim>\<open>const frame = { samples, isEmpty: !samples.some((s) => s === 0) }\<close>.
  \<^verbatim>\<open>Array.prototype.some\<close> is \<^const>\<open>list_ex\<close>.
\<close>

definition makeFrame :: "sample list \<Rightarrow> Frame" where
  "makeFrame smps = \<lparr>samples = smps, isEmpty = (\<not> list_ex strictEqZero smps)\<rparr>"

text \<open>
  \<^verbatim>\<open>SpeechProbabilities\<close>, \<^verbatim>\<open>Message\<close> and the value that \<^verbatim>\<open>FrameProcessor.process\<close>
  resolves to are declared in \<^verbatim>\<open>./_common\<close>. Probabilities and thresholds are JavaScript
  numbers, modelled as reals; frame counts are integers.

  \<^verbatim>\<open>Message\<close> has the five members this file names; \<open>OtherMessage\<close> stands for any other
  member of the enumeration and for any other value found in a \<^verbatim>\<open>message\<close> field.
\<close>

record SpeechProbabilities =
  notSpeech :: real
  isSpeech :: real

datatype Message =
  AudioFrame | SpeechStart | VADMisfire | SpeechEnd | SpeechSegment | OtherMessage string

text \<open>
  The object destructured on line 182, \<^verbatim>\<open>const { probs, msg, audio } = ...\<close>: each of the
  three properties may be \<^verbatim>\<open>undefined\<close> (\<open>None\<close>).
\<close>

record ProcessResult =
  probs :: "SpeechProbabilities option"
  msg :: "Message option"
  audio :: "sample list option"

text \<open>
  Exceptions and rejected promises. \<open>TypeError\<close> is raised by a method call on a field that
  is still \<^verbatim>\<open>undefined\<close> (\<^verbatim>\<open>frameProcessor\<close> and \<^verbatim>\<open>audioNodeVAD\<close> are only assigned by
  \<^verbatim>\<open>init\<close>); \<open>Rejected\<close> is any failure of a collaborator (the browser, the model, the
  frame processor); \<open>CallbackError\<close> is an exception thrown by a callback of the caller's.
\<close>

datatype VADError = ConfigError string | TypeError | Rejected string | CallbackError string

section \<open>Options\<close>

record FrameProcessorOptions =
  frameSamples :: int
  positiveSpeechThreshold :: real
  negativeSpeechThreshold :: real
  redemptionFrames :: int
  preSpeechPadFrames :: int
  minSpeechFrames :: int
  maxSpeechFrames :: int

text \<open>Handles of browser objects; their contents play no role.\<close>

datatype MediaStream = MediaStream nat
datatype AudioContext = AudioContext nat
datatype AudioConstraints = AudioConstraints nat
datatype ModelFetcher = ModelFetcher nat

text \<open>
  A callback is a function of the caller's. Calling it changes the world outside the
  detector, of type \<open>'w\<close>, and it either returns (\<open>None\<close>) or throws (\<open>Some e\<close>), possibly after
  changing the world. Its return value is discarded by every caller in this file, and no
  caller in this file catches what it throws.
\<close>

type_synonym 'w Callback = "'w \<Rightarrow> VADError option \<times> 'w"

text \<open>
  \<^verbatim>\<open>RealTimeVADOptions\<close> (lines 15-69). The two variants of the union differ in \<^verbatim>\<open>stream\<close>
  being \<^verbatim>\<open>undefined\<close> or a \<^verbatim>\<open>MediaStream\<close>; the optional properties are \<open>None\<close> when absent.
\<close>

record 'w RealTimeVADOptions = FrameProcessorOptions +
  onFrameProcessed :: "SpeechProbabilities \<Rightarrow> 'w Callback"
  onVADMisfire :: "'w Callback"
  onSpeechStart :: "'w Callback"
  onSpeechEnd :: "sample list option \<Rightarrow> 'w Callback"
  onSpeechSegment :: "sample list option \<Rightarrow> 'w Callback"
  additionalAudioConstraints :: "AudioConstraints option"
  workletURL :: string
  stream :: "MediaStream option"
  modelFetcher :: "ModelFetcher option"

text \<open>
  Lines 71-92. \<^verbatim>\<open>defaultFrameProcessorOptions\<close>, \<^verbatim>\<open>log\<close> and \<^verbatim>\<open>assetPath\<close> are imported
  from other modules and are parameters here: \<open>dfpo\<close>, \<open>logDebug\<close> (the effect of
  \<^verbatim>\<open>log.debug\<close> on the world) and \<open>assetPath\<close>. The default callbacks return normally.
\<close>

definition getWorkletURL :: "(string \<Rightarrow> string) \<Rightarrow> string" where
  "getWorkletURL assetPath = assetPath ''vad.worklet.bundle.min.js''"

definition defaultRealTimeVADOptions ::
  "FrameProcessorOptions \<Rightarrow> (string \<Rightarrow> 'w \<Rightarrow> 'w) \<Rightarrow> (string \<Rightarrow> string) \<Rightarrow> 'w RealTimeVADOptions" where
  "defaultRealTimeVADOptions dfpo logDebug assetPath =
     \<lparr>frameSamples = frameSamples dfpo,
      positiveSpeechThreshold = positiveSpeechThreshold dfpo,
      negativeSpeechThreshold = negativeSpeechThreshold dfpo,
      redemptionFrames = redemptionFrames dfpo,
      preSpeechPadFrames = preSpeechPadFrames dfpo,
      minSpeechFrames = minSpeechFrames dfpo,
      maxSpeechFrames = maxSpeechFrames dfpo,
      onFrameProcessed = (\<lambda>probabilities w. (None, w)),
      onVADMisfire = (\<lambda>w. (None, logDebug ''VAD misfire'' w)),
      onSpeechStart = (\<lambda>w. (None, logDebug ''Detected speech start'' w)),
      onSpeechEnd = (\<lambda>a w. (None, logDebug ''Detected speech end'' w)),
      onSpeechSegment = (\<lambda>a w. (None, logDebug ''Detected speech segment'' w)),
      additionalAudioConstraints = None,
      workletURL = getWorkletURL assetPath,
      stream = None,
      modelFetcher = None\<rparr>"

subsection \<open>Partial options and object spread\<close>

text \<open>
  A \<^verbatim>\<open>Partial<RealTimeVADOptions>\<close> is an object holding any of the properties, here the
  list of the properties it holds in insertion order. The spread \<^verbatim>\<open>{ ...a, ...b }\<close> copies
  the properties of \<open>b\<close> one by one onto a copy of \<open>a\<close>. A property holds a value of the
  type its declaration gives it: \<^verbatim>\<open>undefined\<close> can be written to \<^verbatim>\<open>stream\<close> and to the two
  optional properties (\<open>None\<close>), and counts as supplied; an object that sets another property
  to \<^verbatim>\<open>undefined\<close> is not represented.
\<close>

datatype 'w Property =
    FrameSamples int
  | PositiveSpeechThreshold real
  | NegativeSpeechThreshold real
  | RedemptionFrames int
  | PreSpeechPadFrames int
  | MinSpeechFrames int
  | MaxSpeechFrames int
  | OnFrameProcessed "SpeechProbabilities \<Rightarrow> 'w Callback"
  | OnVADMisfire "'w Callback"
  | OnSpeechStart "'w Callback"
  | OnSpeechEnd "sample list option \<Rightarrow> 'w Callback"
  | OnSpeechSegment "sample list option \<Rightarrow> 'w Callback"
  | AdditionalAudioConstraints "AudioConstraints option"
  | WorkletURL string
  | Stream "MediaStream option"
  | ModelFetcherProperty "ModelFetcher option"

fun keyOf :: "'w Property \<Rightarrow> string" where
  "keyOf (FrameSamples _) = ''frameSamples''"
| "keyOf (PositiveSpeechThreshold _) = ''positiveSpeechThreshold''"
| "keyOf (NegativeSpeechThreshold _) = ''negativeSpeechThreshold''"
| "keyOf (RedemptionFrames _) = ''redemptionFrames''"
| "keyOf (PreSpeechPadFrames _) = ''preSpeechPadFrames''"
| "keyOf (MinSpeechFrames _) = ''minSpeechFrames''"
| "keyOf (MaxSpeechFrames _) = ''maxSpeechFrames''"
| "keyOf (OnFrameProcessed _) = ''onFrameProcessed''"
| "keyOf (OnVADMisfire _) = ''onVADMisfire''"
| "keyOf (OnSpeechStart _) = ''onSpeechStart''"
| "keyOf (OnSpeechEnd _) = ''onSpeechEnd''"
| "keyOf (OnSpeechSegment _) = ''onSpeechSegment''"
| "keyOf (AdditionalAudioConstraints _) = ''additionalAudioConstraints''"
| "keyOf (WorkletURL _) = ''workletURL''"
| "keyOf (Stream _) = ''stream''"
| "keyOf (ModelFetcherProperty _) = ''modelFetcher''"

text \<open>Writing one property into an options object.\<close>

fun setProperty :: "'w Property \<Rightarrow> 'w RealTimeVADOptions \<Rightarrow> 'w RealTimeVADOptions" where
  "setProperty (FrameSamples x) opts = opts\<lparr>frameSamples := x\<rparr>"
| "setProperty (PositiveSpeechThreshold x) opts = opts\<lparr>positiveSpeechThreshold := x\<rparr>"
| "setProperty (NegativeSpeechThreshold x) opts = opts\<lparr>negativeSpeechThreshold := x\<rparr>"
| "setProperty (RedemptionFrames x) opts = opts\<lparr>redemptionFrames := x\<rparr>"
| "setProperty (PreSpeechPadFrames x) opts = opts\<lparr>preSpeechPadFrames := x\<rparr>"
| "setProperty (MinSpeechFrames x) opts = opts\<lparr>minSpeechFrames := x\<rparr>"
| "setProperty (MaxSpeechFrames x) opts = opts\<lparr>maxSpeechFrames := x\<rparr>"
| "setProperty (OnFrameProcessed x) opts = opts\<lparr>onFrameProcessed := x\<rparr>"
| "setProperty (OnVADMisfire x) opts = opts\<lparr>onVADMisfire := x\<rparr>"
| "setProperty (OnSpeechStart x) opts = opts\<lparr>onSpeechStart := x\<rparr>"
| "setProperty (OnSpeechEnd x) opts = opts\<lparr>onSpeechEnd := x\<rparr>"
| "setProperty (OnSpeechSegment x) opts = opts\<lparr>onSpeechSegment := x\<rparr>"
| "setProperty (AdditionalAudioConstraints x) opts = opts\<lparr>additionalAudioConstraints := x\<rparr>"
| "setProperty (WorkletURL x) opts = opts\<lparr>workletURL := x\<rparr>"
| "setProperty (Stream x) opts = opts\<lparr>stream := x\<rparr>"
| "setProperty (ModelFetcherProperty x) opts = opts\<lparr>modelFetcher := x\<rparr>"

text \<open>The properties of a complete options object, in declaration order.\<close>

definition ownProperties :: "'w RealTimeVADOptions \<Rightarrow> 'w Property list" where
  "ownProperties opts =
     [FrameSamples (frameSamples opts),
      PositiveSpeechThreshold (positiveSpeechThreshold opts),
      NegativeSpeechThreshold (negativeSpeechThreshold opts),
      RedemptionFrames (redemptionFrames opts),
      PreSpeechPadFrames (preSpeechPadFrames opts),
      MinSpeechFrames (minSpeechFrames opts),
      MaxSpeechFrames (maxSpeechFrames opts),
      OnFrameProcessed (onFrameProcessed opts),
      OnVADMisfire (onVADMisfire opts),
      OnSpeechStart (onSpeechStart opts),
      OnSpeechEnd (onSpeechEnd opts),
      OnSpeechSegment (onSpeechSegment opts),
      AdditionalAudioConstraints (additionalAudioConstraints opts),
      WorkletURL (workletURL opts),
      Stream (stream opts),
      ModelFetcherProperty (modelFetcher opts)]"

text \<open>Reading the property stored under a key; \<open>None\<close> for a key that is no option.\<close>

definition getProperty :: "string \<Rightarrow> 'w RealTimeVADOptions \<Rightarrow> 'w Property option" where
  "getProperty k opts = find (\<lambda>p. keyOf p = k) (ownProperties opts)"

text \<open>The property a partial object holds under a key: the one written last.\<close>

definition lookupProperty :: "string \<Rightarrow> 'w Property list \<Rightarrow> 'w Property option" where
  "lookupProperty k ps = find (\<lambda>p. keyOf p = k) (rev ps)"

definition spread :: "'w RealTimeVADOptions \<Rightarrow> 'w Property list \<Rightarrow> 'w RealTimeVADOptions" where
  "spread base ps = foldl (\<lambda>opts p. setProperty p opts) base ps"

section \<open>What the module imports\<close>

text \<open>
  The browser's audio graph as far as this file builds it: the worklet node created on
  line 212 (with whether a handler has been assigned to its port), the argument of
  \<^verbatim>\<open>getUserMedia\<close> (lines 115-123) and the source node of line 127.
\<close>

record AudioWorkletNode =
  processorName :: string
  processorFrameSamples :: int
  portOnmessage :: bool

record MediaConstraints =
  additional :: "AudioConstraints option"
  channelCount :: nat
  echoCancellation :: bool
  autoGainControl :: bool
  noiseSuppression :: bool

datatype SourceNode = MediaStreamAudioSourceNode AudioContext MediaStream

text \<open>
  Everything \<^verbatim>\<open>real-time-vad.ts\<close> imports or takes from the browser is a parameter of the
  model, collected in one record. \<open>'w\<close> is the world outside the detector, \<open>'fp\<close> the
  state of a \<^verbatim>\<open>FrameProcessor\<close> object, \<open>'model\<close> a loaded \<^verbatim>\<open>Silero\<close> model. An operation
  that can throw or reject returns a \<^typ>\<open>VADError\<close>; constructing an \<^verbatim>\<open>AudioContext\<close>, an
  \<^verbatim>\<open>AudioWorkletNode\<close> or a \<^verbatim>\<open>MediaStreamAudioSourceNode\<close> is taken to succeed, and so are
  the methods \<^verbatim>\<open>pause\<close> and \<^verbatim>\<open>resume\<close> of the frame processor.
\<close>

record ('w, 'fp, 'model) Env =
  validate :: "'w RealTimeVADOptions \<Rightarrow> VADError option"
  defaultFrameProcessorOptions :: FrameProcessorOptions
  logDebug :: "string \<Rightarrow> 'w \<Rightarrow> 'w"
  assetPath :: "string \<Rightarrow> string"
  defaultModelFetcher :: ModelFetcher
  sileroNew :: "ModelFetcher \<Rightarrow> 'w \<Rightarrow> (VADError + 'model) \<times> 'w"
  newFrameProcessor :: "'model \<Rightarrow> FrameProcessorOptions \<Rightarrow> 'fp"
  fpProcess :: "'fp \<Rightarrow> Frame \<Rightarrow> (VADError + ProcessResult) \<times> 'fp"
  fpPause :: "'fp \<Rightarrow> 'fp"
  fpResume :: "'fp \<Rightarrow> 'fp"
  getUserMedia :: "MediaConstraints \<Rightarrow> 'w \<Rightarrow> (VADError + MediaStream) \<times> 'w"
  newAudioContext :: "'w \<Rightarrow> AudioContext \<times> 'w"
  addModule :: "AudioContext \<Rightarrow> string \<Rightarrow> 'w \<Rightarrow> VADError option \<times> 'w"
  connect :: "SourceNode \<Rightarrow> AudioWorkletNode \<Rightarrow> 'w \<Rightarrow> 'w"

definition defaults :: "('w, 'fp, 'model) Env \<Rightarrow> 'w RealTimeVADOptions" where
  "defaults env =
     defaultRealTimeVADOptions (defaultFrameProcessorOptions env) (logDebug env) (assetPath env)"

section \<open>AudioNodeVAD\<close>

record ('w, 'fp) AudioNodeVAD =
  ctx :: AudioContext
  options :: "'w RealTimeVADOptions"
  frameProcessor :: "'fp option"
  entryNode :: "AudioWorkletNode option"

text \<open>Lines 164-166: the constructor stores its arguments after validating the options.\<close>

definition AudioNodeVAD_constructor ::
  "('w, 'fp, 'model) Env \<Rightarrow> AudioContext \<Rightarrow> 'w RealTimeVADOptions
     \<Rightarrow> VADError + ('w, 'fp) AudioNodeVAD" where
  "AudioNodeVAD_constructor env c opts =
     (case validate env opts of
        Some e \<Rightarrow> Inl e
      | None \<Rightarrow> Inr \<lparr>ctx = c, options = opts, frameProcessor = None, entryNode = None\<rparr>)"

text \<open>Lines 168-174. Before \<^verbatim>\<open>init\<close> the field \<^verbatim>\<open>frameProcessor\<close> is \<^verbatim>\<open>undefined\<close>.\<close>

definition AudioNodeVAD_pause ::
  "('w, 'fp, 'model) Env \<Rightarrow> ('w, 'fp) AudioNodeVAD \<Rightarrow> VADError option \<times> ('w, 'fp) AudioNodeVAD" where
  "AudioNodeVAD_pause env vad =
     (case frameProcessor vad of
        None \<Rightarrow> (Some TypeError, vad)
      | Some fp \<Rightarrow> (None, vad\<lparr>frameProcessor := Some (fpPause env fp)\<rparr>))"

definition AudioNodeVAD_start ::
  "('w, 'fp, 'model) Env \<Rightarrow> ('w, 'fp) AudioNodeVAD \<Rightarrow> VADError option \<times> ('w, 'fp) AudioNodeVAD" where
  "AudioNodeVAD_start env vad =
     (case frameProcessor vad of
        None \<Rightarrow> (Some TypeError, vad)
      | Some fp \<Rightarrow> (None, vad\<lparr>frameProcessor := Some (fpResume env fp)\<rparr>))"

text \<open>Lines 176-178. \<^verbatim>\<open>node.connect(undefined)\<close> throws.\<close>

definition receive ::
  "('w, 'fp, 'model) Env \<Rightarrow> ('w, 'fp) AudioNodeVAD \<Rightarrow> SourceNode \<Rightarrow> 'w \<Rightarrow> VADError option \<times> 'w" where
  "receive env vad node w =
     (case entryNode vad of
        None \<Rightarrow> (Some TypeError, w)
      | Some n \<Rightarrow> (None, connect env node n w))"

text \<open>
  The \<^verbatim>\<open>switch (msg)\<close> of lines 186-207, run in the world \<open>w\<close>: the callback of the
  message, which may throw, or nothing.
\<close>

fun dispatch ::
  "'w RealTimeVADOptions \<Rightarrow> Message option \<Rightarrow> sample list option \<Rightarrow> 'w Callback" where
  "dispatch opts (Some SpeechStart) a w = onSpeechStart opts w"
| "dispatch opts (Some VADMisfire) a w = onVADMisfire opts w"
| "dispatch opts (Some SpeechEnd) a w = onSpeechEnd opts a w"
| "dispatch opts (Some SpeechSegment) a w = onSpeechSegment opts a w"
| "dispatch opts _ a w = (None, w)"

text \<open>
  Lines 180-208. One call is modelled as one step: the frame processor answers, then the
  callbacks run. A rejected \<^verbatim>\<open>process\<close> leaves the function before any callback, and an
  \<^verbatim>\<open>onFrameProcessed\<close> that throws on line 184 leaves it before the switch of line 186; what
  a callback throws is what \<^verbatim>\<open>processFrame\<close> rejects with.
\<close>

definition processFrame ::
  "('w, 'fp, 'model) Env \<Rightarrow> ('w, 'fp) AudioNodeVAD \<Rightarrow> sample list \<Rightarrow> 'w
     \<Rightarrow> VADError option \<times> ('w, 'fp) AudioNodeVAD \<times> 'w" where
  "processFrame env vad smps w =
     (let frame = makeFrame smps in
      case frameProcessor vad of
        None \<Rightarrow> (Some TypeError, vad, w)
      | Some fp \<Rightarrow>
          (case fpProcess env fp frame of
             (Inl e, fp') \<Rightarrow> (Some e, vad\<lparr>frameProcessor := Some fp'\<rparr>, w)
           | (Inr r, fp') \<Rightarrow>
               (case (case probs r of
                        Some p \<Rightarrow> onFrameProcessed (options vad) p w
                      | None \<Rightarrow> (None, w)) of
                  (Some e, w1) \<Rightarrow> (Some e, vad\<lparr>frameProcessor := Some fp'\<rparr>, w1)
                | (None, w1) \<Rightarrow>
                    (case dispatch (options vad) (msg r) (audio r) w1 of
                       (err, w2) \<Rightarrow> (err, vad\<lparr>frameProcessor := Some fp'\<rparr>, w2)))))"

text \<open>
  The message a worklet posts: \<^verbatim>\<open>ev.data\<close> is \<open>None\<close> when absent, and then
  \<^verbatim>\<open>ev.data?.message\<close> is \<^verbatim>\<open>undefined\<close>. The \<^verbatim>\<open>ArrayBuffer\<close> in \<^verbatim>\<open>ev.data.data\<close> is
  given by the samples \<^verbatim>\<open>new Float32Array(buffer)\<close> reads from it.
\<close>

record WorkletMessage =
  message :: "Message option"
  data :: "sample list"

type_synonym MessageEvent = "WorkletMessage option"

text \<open>Lines 234-245, the handler assigned to \<^verbatim>\<open>vadNode.port.onmessage\<close>.\<close>

definition onmessage ::
  "('w, 'fp, 'model) Env \<Rightarrow> ('w, 'fp) AudioNodeVAD \<Rightarrow> MessageEvent \<Rightarrow> 'w
     \<Rightarrow> VADError option \<times> ('w, 'fp) AudioNodeVAD \<times> 'w" where
  "onmessage env vad ev w =
     (case ev of
        None \<Rightarrow> (None, vad, w)
      | Some d \<Rightarrow>
          (case message d of
             Some AudioFrame \<Rightarrow> processFrame env vad (data d) w
           | _ \<Rightarrow> (None, vad, w)))"

text \<open>Lines 210-246.\<close>

definition AudioNodeVAD_init ::
  "('w, 'fp, 'model) Env \<Rightarrow> ('w, 'fp) AudioNodeVAD \<Rightarrow> 'w
     \<Rightarrow> VADError option \<times> ('w, 'fp) AudioNodeVAD \<times> 'w" where
  "AudioNodeVAD_init env vad w =
     (case addModule env (ctx vad) (workletURL (options vad)) w of
        (Some e, w1) \<Rightarrow> (Some e, vad, w1)
      | (None, w1) \<Rightarrow>
          (let vadNode = \<lparr>processorName = ''vad-helper-worklet'',
                          processorFrameSamples = frameSamples (options vad),
                          portOnmessage = False\<rparr>;
               vad1 = vad\<lparr>entryNode := Some vadNode\<rparr>
           in case sileroNew env
                     (case modelFetcher (options vad) of
                        Some f \<Rightarrow> f
                      | None \<Rightarrow> defaultModelFetcher env) w1 of
                (Inl e, w2) \<Rightarrow> (Some e, vad1, w2)
              | (Inr model, w2) \<Rightarrow>
                  (None,
                   vad1\<lparr>frameProcessor := Some (newFrameProcessor env model
                            \<lparr>frameSamples = frameSamples (options vad),
                             positiveSpeechThreshold = positiveSpeechThreshold (options vad),
                             negativeSpeechThreshold = negativeSpeechThreshold (options vad),
                             redemptionFrames = redemptionFrames (options vad),
                             preSpeechPadFrames = preSpeechPadFrames (options vad),
                             minSpeechFrames = minSpeechFrames (options vad),
                             maxSpeechFrames = maxSpeechFrames (options vad)\<rparr>),
                         entryNode := Some (vadNode\<lparr>portOnmessage := True\<rparr>)\<rparr>,
                   w2)))"

text \<open>Lines 152-162.\<close>

definition AudioNodeVAD_new ::
  "('w, 'fp, 'model) Env \<Rightarrow> AudioContext \<Rightarrow> 'w Property list \<Rightarrow> 'w
     \<Rightarrow> (VADError + ('w, 'fp) AudioNodeVAD) \<times> 'w" where
  "AudioNodeVAD_new env c partial w =
     (case AudioNodeVAD_constructor env c (spread (defaults env) partial) of
        Inl e \<Rightarrow> (Inl e, w)
      | Inr vad \<Rightarrow>
          (case AudioNodeVAD_init env vad w of
             (Some e, vad', w') \<Rightarrow> (Inl e, w')
           | (None, vad', w') \<Rightarrow> (Inr vad', w')))"

section \<open>MicVAD\<close>

text \<open>
  Lines 94-101. The fields \<^verbatim>\<open>options\<close> and \<^verbatim>\<open>stream\<close> share their names with fields
  declared above, which are written \<open>AudioNodeVAD.options\<close> and
  \<open>RealTimeVADOptions.stream\<close> from here on.
\<close>

record ('w, 'fp) MicVAD =
  options :: "'w RealTimeVADOptions"
  audioContext :: "AudioContext option"
  stream :: "MediaStream option"
  audioNodeVAD :: "('w, 'fp) AudioNodeVAD option"
  listening :: bool

text \<open>Lines 109-111, with the field initialiser \<^verbatim>\<open>listening = false\<close> of line 101.\<close>

definition MicVAD_constructor ::
  "('w, 'fp, 'model) Env \<Rightarrow> 'w RealTimeVADOptions \<Rightarrow> VADError + ('w, 'fp) MicVAD" where
  "MicVAD_constructor env opts =
     (case validate env opts of
        Some e \<Rightarrow> Inl e
      | None \<Rightarrow>
          Inr \<lparr>options = opts, audioContext = None, stream = None, audioNodeVAD = None,
               listening = False\<rparr>)"

text \<open>
  Lines 113-133. \<^verbatim>\<open>AudioNodeVAD.new\<close> receives the complete options object of this
  instance, that is all its properties.
\<close>

definition MicVAD_init ::
  "('w, 'fp, 'model) Env \<Rightarrow> ('w, 'fp) MicVAD \<Rightarrow> 'w \<Rightarrow> VADError option \<times> ('w, 'fp) MicVAD \<times> 'w" where
  "MicVAD_init env v w =
     (case (case RealTimeVADOptions.stream (options v) of
              None \<Rightarrow>
                getUserMedia env
                  \<lparr>additional = additionalAudioConstraints (options v),
                   channelCount = 1,
                   echoCancellation = True,
                   autoGainControl = True,
                   noiseSuppression = True\<rparr> w
            | Some s \<Rightarrow> (Inr s, w)) of
        (Inl e, w1) \<Rightarrow> (Some e, v, w1)
      | (Inr s, w1) \<Rightarrow>
          (case newAudioContext env w1 of
             (actx, w2) \<Rightarrow>
               (let v2 = v\<lparr>stream := Some s, audioContext := Some actx\<rparr>;
                    source = MediaStreamAudioSourceNode actx s
                in case AudioNodeVAD_new env actx (ownProperties (options v)) w2 of
                     (Inl e, w3) \<Rightarrow> (Some e, v2, w3)
                   | (Inr a, w3) \<Rightarrow>
                       (case receive env a source w3 of
                          (err, w4) \<Rightarrow> (err, v2\<lparr>audioNodeVAD := Some a\<rparr>, w4)))))"

text \<open>Lines 103-107.\<close>

definition MicVAD_new ::
  "('w, 'fp, 'model) Env \<Rightarrow> 'w Property list \<Rightarrow> 'w \<Rightarrow> (VADError + ('w, 'fp) MicVAD) \<times> 'w" where
  "MicVAD_new env partial w =
     (case MicVAD_constructor env (spread (defaults env) partial) of
        Inl e \<Rightarrow> (Inl e, w)
      | Inr v \<Rightarrow>
          (case MicVAD_init env v w of
             (Some e, v', w') \<Rightarrow> (Inl e, w')
           | (None, v', w') \<Rightarrow> (Inr v', w')))"

text \<open>
  Lines 135-143. When \<^verbatim>\<open>this.audioNodeVAD.pause()\<close> throws, the assignment to
  \<^verbatim>\<open>listening\<close> is not reached.
\<close>

definition MicVAD_pause ::
  "('w, 'fp, 'model) Env \<Rightarrow> ('w, 'fp) MicVAD \<Rightarrow> VADError option \<times> ('w, 'fp) MicVAD" where
  "MicVAD_pause env v =
     (case audioNodeVAD v of
        None \<Rightarrow> (Some TypeError, v)
      | Some a \<Rightarrow>
          (case AudioNodeVAD_pause env a of
             (Some e, a') \<Rightarrow> (Some e, v\<lparr>audioNodeVAD := Some a'\<rparr>)
           | (None, a') \<Rightarrow> (None, v\<lparr>audioNodeVAD := Some a', listening := False\<rparr>)))"

definition MicVAD_start ::
  "('w, 'fp, 'model) Env \<Rightarrow> ('w, 'fp) MicVAD \<Rightarrow> VADError option \<times> ('w, 'fp) MicVAD" where
  "MicVAD_start env v =
     (case audioNodeVAD v of
        None \<Rightarrow> (Some TypeError, v)
      | Some a \<Rightarrow>
          (case AudioNodeVAD_start env a of
             (Some e, a') \<Rightarrow> (Some e, v\<lparr>audioNodeVAD := Some a'\<rparr>)
           | (None, a') \<Rightarrow> (None, v\<lparr>audioNodeVAD := Some a', listening := True\<rparr>)))"

section \<open>Observing the callbacks\<close>

text \<open>
  To say which callbacks a call invokes, with which arguments and in which order, every
  callback of the caller's is wrapped: the wrapper appends the invocation to a log and then
  runs the callback itself, returning or throwing as it does. The world observed is the
  log together with the caller's world.
\<close>

datatype Invocation =
    FrameProcessedCall SpeechProbabilities
  | VADMisfireCall
  | SpeechStartCall
  | SpeechEndCall "sample list option"
  | SpeechSegmentCall "sample list option"

fun isLifecycle :: "Invocation \<Rightarrow> bool" where
  "isLifecycle (FrameProcessedCall _) = False"
| "isLifecycle _ = True"

fun logged :: "Invocation \<Rightarrow> 'w Callback \<Rightarrow> (Invocation list \<times> 'w) Callback" where
  "logged i cb (l, w) = (case cb w of (e, w') \<Rightarrow> (e, (l @ [i], w')))"

definition logging :: "'w RealTimeVADOptions \<Rightarrow> (Invocation list \<times> 'w) RealTimeVADOptions" where
  "logging opts =
     \<lparr>frameSamples = frameSamples opts,
      positiveSpeechThreshold = positiveSpeechThreshold opts,
      negativeSpeechThreshold = negativeSpeechThreshold opts,
      redemptionFrames = redemptionFrames opts,
      preSpeechPadFrames = preSpeechPadFrames opts,
      minSpeechFrames = minSpeechFrames opts,
      maxSpeechFrames = maxSpeechFrames opts,
      onFrameProcessed = (\<lambda>p. logged (FrameProcessedCall p) (onFrameProcessed opts p)),
      onVADMisfire = logged VADMisfireCall (onVADMisfire opts),
      onSpeechStart = logged SpeechStartCall (onSpeechStart opts),
      onSpeechEnd = (\<lambda>a. logged (SpeechEndCall a) (onSpeechEnd opts a)),
      onSpeechSegment = (\<lambda>a. logged (SpeechSegmentCall a) (onSpeechSegment opts a)),
      additionalAudioConstraints = additionalAudioConstraints opts,
      workletURL = workletURL opts,
      stream = RealTimeVADOptions.stream opts,
      modelFetcher = modelFetcher opts\<rparr>"

definition observed ::
  "('w, 'fp) AudioNodeVAD \<Rightarrow> (Invocation list \<times> 'w, 'fp) AudioNodeVAD" where
  "observed vad =
     \<lparr>ctx = ctx vad, options = logging (AudioNodeVAD.options vad),
      frameProcessor = frameProcessor vad, entryNode = entryNode vad\<rparr>"

text \<open>
  The invocations one call of \<^verbatim>\<open>processFrame\<close> makes in the world \<open>w\<close>, in order. The frame
  processor does not depend on the world, so the environment is taken at the observed
  world.
\<close>

definition invocations ::
  "(Invocation list \<times> 'w, 'fp, 'model) Env \<Rightarrow> ('w, 'fp) AudioNodeVAD \<Rightarrow> sample list \<Rightarrow> 'w
     \<Rightarrow> Invocation list" where
  "invocations env vad smps w = fst (snd (snd (processFrame env (observed vad) smps ([], w))))"

text \<open>
  Whether the report of the probability on line 184 throws in the world \<open>w\<close>: there is a
  probability and \<^verbatim>\<open>onFrameProcessed\<close> throws on it.
\<close>

definition reportThrows :: "'w RealTimeVADOptions \<Rightarrow> ProcessResult \<Rightarrow> 'w \<Rightarrow> bool" where
  "reportThrows opts r w =
     (case probs r of
        Some p \<Rightarrow> fst (onFrameProcessed opts p w) \<noteq> None
      | None \<Rightarrow> False)"

section \<open>Configuration validation\<close>

text \<open>
  Modelled from the spec: \<^verbatim>\<open>validateOptions\<close> is imported from \<^verbatim>\<open>./_common\<close>, which is not
  among the sources. The spec (sections 3, 6 and 7): validation fails with a
  \<^verbatim>\<open>ConfigError\<close> naming the offending field when a threshold is outside \<open>[0,1]\<close>, when
  \<^verbatim>\<open>negativeSpeechThreshold > positiveSpeechThreshold\<close>, when an option that must be
  positive (\<^verbatim>\<open>frameSamples\<close>, \<^verbatim>\<open>minSpeechFrames\<close>) is \<open>\<le> 0\<close>, or when
  \<^verbatim>\<open>maxSpeechFrames < minSpeechFrames\<close>; \<^verbatim>\<open>redemptionFrames\<close> and \<^verbatim>\<open>preSpeechPadFrames\<close>
  must be \<open>\<ge> 0\<close>. The first failing check decides the field named.
\<close>

definition validateOptions :: "'z FrameProcessorOptions_scheme \<Rightarrow> VADError option" where
  "validateOptions opts =
     (if positiveSpeechThreshold opts < 0 \<or> 1 < positiveSpeechThreshold opts
        then Some (ConfigError ''positiveSpeechThreshold'')
      else if negativeSpeechThreshold opts < 0 \<or> 1 < negativeSpeechThreshold opts
        then Some (ConfigError ''negativeSpeechThreshold'')
      else if positiveSpeechThreshold opts < negativeSpeechThreshold opts
        then Some (ConfigError ''negativeSpeechThreshold'')
      else if frameSamples opts \<le> 0 then Some (ConfigError ''frameSamples'')
      else if minSpeechFrames opts \<le> 0 then Some (ConfigError ''minSpeechFrames'')
      else if maxSpeechFrames opts < minSpeechFrames opts
        then Some (ConfigError ''maxSpeechFrames'')
      else if redemptionFrames opts < 0 then Some (ConfigError ''redemptionFrames'')
      else if preSpeechPadFrames opts < 0 then Some (ConfigError ''preSpeechPadFrames'')
      else None)"

text \<open>
  The constraints of section 7 of the spec as a predicate, and the fields that take part
  in a violated one.
\<close>

definition violatesConstraint :: "'z FrameProcessorOptions_scheme \<Rightarrow> bool" where
  "violatesConstraint opts =
     (positiveSpeechThreshold opts < 0 \<or> 1 < positiveSpeechThreshold opts
      \<or> negativeSpeechThreshold opts < 0 \<or> 1 < negativeSpeechThreshold opts
      \<or> positiveSpeechThreshold opts < negativeSpeechThreshold opts
      \<or> frameSamples opts \<le> 0 \<or> minSpeechFrames opts \<le> 0
      \<or> maxSpeechFrames opts < minSpeechFrames opts)"

definition offendingFields :: "'z FrameProcessorOptions_scheme \<Rightarrow> string list" where
  "offendingFields opts =
     (if positiveSpeechThreshold opts < 0 \<or> 1 < positiveSpeechThreshold opts
        then [''positiveSpeechThreshold''] else [])
     @ (if negativeSpeechThreshold opts < 0 \<or> 1 < negativeSpeechThreshold opts
        then [''negativeSpeechThreshold''] else [])
     @ (if positiveSpeechThreshold opts < negativeSpeechThreshold opts
        then [''negativeSpeechThreshold'', ''positiveSpeechThreshold''] else [])
     @ (if frameSamples opts \<le> 0 then [''frameSamples''] else [])
     @ (if minSpeechFrames opts \<le> 0 then [''minSpeechFrames''] else [])
     @ (if maxSpeechFrames opts < minSpeechFrames opts
        then [''maxSpeechFrames'', ''minSpeechFrames''] else [])"

section \<open>The frame processor\<close>

text \<open>
  Modelled from the spec: the class \<^verbatim>\<open>FrameProcessor\<close> (its constructor and the methods
  \<^verbatim>\<open>process\<close>, \<^verbatim>\<open>pause\<close> and \<^verbatim>\<open>resume\<close> that this file calls) is imported from
  \<^verbatim>\<open>./_common\<close>, which is not among the sources. What follows is the segmenter of
  sections 3 and 4.1 of the spec.

  The probability model is the pair of functions the constructor receives on line 224
  (\<^verbatim>\<open>model.process\<close>, \<^verbatim>\<open>model.reset_state\<close>) with the model's recurrent state \<open>'m\<close>. The
  failure policies of section 7 of the spec are not part of this model: inference and
  reset always succeed.
\<close>

record 'm ProbabilityModel =
  infer :: "'m \<Rightarrow> sample list \<Rightarrow> SpeechProbabilities \<times> 'm"
  resetState :: "'m \<Rightarrow> 'm"
  modelState :: 'm

text \<open>
  Modelled from the spec: the state of the segmenter (section 3), which the absent
  \<^verbatim>\<open>FrameProcessor\<close> holds. \<open>ActiveSpeech\<close> carries the redemption counter.
\<close>

datatype SegmenterState = Idle | ActiveSpeech nat

text \<open>
  Modelled from the spec: the fields of the absent \<^verbatim>\<open>FrameProcessor\<close> (section 3). \<open>active\<close>
  is false while paused. \<open>utteranceFrames\<close> counts the frames accumulated across the current
  utterance, flushed segments included and pad frames excluded (the count compared with
  \<^verbatim>\<open>minSpeechFrames\<close>).
\<close>

record 'm FrameProcessor =
  probabilityModel :: "'m ProbabilityModel"
  configuration :: FrameProcessorOptions
  active :: bool
  ringPadBuffer :: "Frame list"
  utteranceBuffer :: "Frame list"
  segmenterState :: SegmenterState
  utteranceFrames :: nat

text \<open>
  Modelled from the spec: the absent constructor of \<^verbatim>\<open>FrameProcessor\<close>. A new processor is
  idle with empty buffers. The spec does not say whether it starts paused; it starts paused
  here, as \<^verbatim>\<open>listening = false\<close> on line 101 does.
\<close>

definition FrameProcessor_new :: "'m ProbabilityModel \<Rightarrow> FrameProcessorOptions \<Rightarrow> 'm FrameProcessor" where
  "FrameProcessor_new pm cfg =
     \<lparr>probabilityModel = pm, configuration = cfg, active = False, ringPadBuffer = [],
      utteranceBuffer = [], segmenterState = Idle, utteranceFrames = 0\<rparr>"

text \<open>
  Modelled from the spec: the absent \<^verbatim>\<open>FrameProcessor.pause\<close>. Pausing only stops frames from
  being processed; buffers and counters persist untouched (section 4.1).
\<close>

definition FrameProcessor_pause :: "'m FrameProcessor \<Rightarrow> 'm FrameProcessor" where
  "FrameProcessor_pause fp = fp\<lparr>active := False\<rparr>"

text \<open>Modelled from the spec: the absent \<^verbatim>\<open>FrameProcessor.resume\<close> (section 4.1).\<close>

definition FrameProcessor_resume :: "'m FrameProcessor \<Rightarrow> 'm FrameProcessor" where
  "FrameProcessor_resume fp = fp\<lparr>active := True\<rparr>"

text \<open>
  Modelled from the spec: step 1 of the absent \<^verbatim>\<open>FrameProcessor.process\<close>, the push into the
  ring, evicting the oldest frames over capacity.
\<close>

definition pushPad :: "nat \<Rightarrow> Frame \<Rightarrow> Frame list \<Rightarrow> Frame list" where
  "pushPad capacity f ring = (let r = ring @ [f] in drop (length r - capacity) r)"

text \<open>
  Modelled from the spec: the audio payloads of the absent \<^verbatim>\<open>FrameProcessor.process\<close> are the
  flat concatenation of the frames' samples, in arrival order.
\<close>

definition concatFrames :: "Frame list \<Rightarrow> sample list" where
  "concatFrames fs = concat (map samples fs)"

text \<open>
  Modelled from the spec: step 2 of the absent \<^verbatim>\<open>FrameProcessor.process\<close>. A frame flagged
  silent is given \<open>isSpeech = 0\<close> without running the model (and \<open>notSpeech = 1\<close>, which the
  spec leaves open).
\<close>

definition probabilityOf ::
  "'m ProbabilityModel \<Rightarrow> Frame \<Rightarrow> SpeechProbabilities \<times> 'm ProbabilityModel" where
  "probabilityOf pm frame =
     (if isEmpty frame then (\<lparr>notSpeech = 1, isSpeech = 0\<rparr>, pm)
      else (case infer pm (modelState pm) (samples frame) of
              (p, m) \<Rightarrow> (p, pm\<lparr>modelState := m\<rparr>)))"

text \<open>
  Modelled from the spec: the reset of the model's state at the end of an utterance, in the
  absent \<^verbatim>\<open>FrameProcessor.process\<close>.
\<close>

definition resetModel :: "'m ProbabilityModel \<Rightarrow> 'm ProbabilityModel" where
  "resetModel pm = pm\<lparr>modelState := resetState pm (modelState pm)\<rparr>"

text \<open>
  Modelled from the spec: the absent \<^verbatim>\<open>FrameProcessor.process\<close>, steps 1 to 4 of section
  4.1. A paused processor does nothing and reports nothing. The ring is pushed first
  (step 1) and seeds the utterance at the onset (step 4), followed by the frame, as the spec
  orders the steps. After a flush the processor remains in \<open>ActiveSpeech\<close> with its counter.
  "Reaches" is read as \<open>\<ge>\<close>.
\<close>

definition FrameProcessor_process ::
  "'m FrameProcessor \<Rightarrow> Frame \<Rightarrow> (VADError + ProcessResult) \<times> 'm FrameProcessor" where
  "FrameProcessor_process fp frame =
     (if \<not> active fp then (Inr \<lparr>probs = None, msg = None, audio = None\<rparr>, fp)
      else
        (let cfg = configuration fp;
             ring = pushPad (nat (preSpeechPadFrames cfg)) frame (ringPadBuffer fp)
         in case probabilityOf (probabilityModel fp) frame of
           (p, pm) \<Rightarrow>
             (let fp1 = fp\<lparr>probabilityModel := pm, ringPadBuffer := ring\<rparr> in
              case segmenterState fp of
                Idle \<Rightarrow>
                  (if positiveSpeechThreshold cfg \<le> isSpeech p
                   then (Inr \<lparr>probs = Some p, msg = Some SpeechStart, audio = None\<rparr>,
                         fp1\<lparr>utteranceBuffer := ring @ [frame],
                             segmenterState := ActiveSpeech 0,
                             utteranceFrames := 1\<rparr>)
                   else (Inr \<lparr>probs = Some p, msg = None, audio = None\<rparr>, fp1))
              | ActiveSpeech c \<Rightarrow>
                  (let ub = utteranceBuffer fp @ [frame];
                       n = utteranceFrames fp + 1
                   in if maxSpeechFrames cfg \<le> int (length ub)
                      then (Inr \<lparr>probs = Some p, msg = Some SpeechSegment,
                                 audio = Some (concatFrames ub)\<rparr>,
                            fp1\<lparr>utteranceBuffer := [], utteranceFrames := n\<rparr>)
                      else if isSpeech p < negativeSpeechThreshold cfg
                      then (if redemptionFrames cfg \<le> int (c + 1)
                            then (Inr (if minSpeechFrames cfg \<le> int n
                                       then \<lparr>probs = Some p, msg = Some SpeechEnd,
                                             audio = Some (concatFrames ub)\<rparr>
                                       else \<lparr>probs = Some p, msg = Some VADMisfire,
                                             audio = None\<rparr>),
                                  fp1\<lparr>probabilityModel := resetModel pm,
                                      utteranceBuffer := [],
                                      segmenterState := Idle,
                                      utteranceFrames := 0\<rparr>)
                            else (Inr \<lparr>probs = Some p, msg = None, audio = None\<rparr>,
                                  fp1\<lparr>utteranceBuffer := ub,
                                      segmenterState := ActiveSpeech (c + 1),
                                      utteranceFrames := n\<rparr>))
                      else (Inr \<lparr>probs = Some p, msg = None, audio = None\<rparr>,
                            fp1\<lparr>utteranceBuffer := ub,
                                segmenterState := ActiveSpeech 0,
                                utteranceFrames := n\<rparr>)))))"

text \<open>Feeding frames in arrival order, one call each, and collecting the answers.\<close>

fun processAll ::
  "'m FrameProcessor \<Rightarrow> Frame list \<Rightarrow> (VADError + ProcessResult) list \<times> 'm FrameProcessor" where
  "processAll fp [] = ([], fp)"
| "processAll fp (f # fs) =
     (case FrameProcessor_process fp f of
        (r, fp') \<Rightarrow> (case processAll fp' fs of (rs, fp'') \<Rightarrow> (r # rs, fp'')))"

text \<open>What one answer shows of the lifecycle: the message and the length of its audio.\<close>

fun lifecycleOf :: "VADError + ProcessResult \<Rightarrow> (Message \<times> nat option) option" where
  "lifecycleOf (Inl e) = None"
| "lifecycleOf (Inr r) =
     (case msg r of None \<Rightarrow> None | Some m \<Rightarrow> Some (m, map_option length (audio r)))"

text \<open>
  A probability model that plays back a given sequence of \<^verbatim>\<open>isSpeech\<close> values, one per
  inference; resetting it does not rewind the sequence.
\<close>

fun scriptedInfer :: "real list \<Rightarrow> sample list \<Rightarrow> SpeechProbabilities \<times> real list" where
  "scriptedInfer [] smps = (\<lparr>notSpeech = 1, isSpeech = 0\<rparr>, [])"
| "scriptedInfer (p # ps) smps = (\<lparr>notSpeech = 1 - p, isSpeech = p\<rparr>, ps)"

definition scriptedModel :: "real list \<Rightarrow> real list ProbabilityModel" where
  "scriptedModel ps = \<lparr>infer = scriptedInfer, resetState = (\<lambda>m. m), modelState = ps\<rparr>"

section \<open>Example values\<close>

text \<open>The configuration and the probabilities of the example in section 8 of the spec.\<close>

definition exampleConfig :: FrameProcessorOptions where
  "exampleConfig =
     \<lparr>frameSamples = 480, positiveSpeechThreshold = 0.5, negativeSpeechThreshold = 0.35,
      redemptionFrames = 8, preSpeechPadFrames = 1, minSpeechFrames = 3,
      maxSpeechFrames = 1000\<rparr>"

definition exampleProbabilities :: "real list" where
  "exampleProbabilities =
     [0.1, 0.1, 0.6, 0.7, 0.8, 0.2, 0.1, 0.1, 0.1, 0.1, 0.1, 0.1, 0.1, 0.1, 0.1]"

text \<open>
  An environment whose browser operations all succeed and leave the world alone, around
  a given \<^verbatim>\<open>process\<close> function and a given initial frame-processor state; it validates
  nothing.
\<close>

definition stubEnv ::
  "('fp \<Rightarrow> Frame \<Rightarrow> (VADError + ProcessResult) \<times> 'fp) \<Rightarrow> 'fp \<Rightarrow> ('w, 'fp, 'fp) Env" where
  "stubEnv p fp0 =
     \<lparr>validate = (\<lambda>opts. None),
      defaultFrameProcessorOptions = exampleConfig,
      logDebug = (\<lambda>s w. w),
      assetPath = (\<lambda>s. ''/'' @ s),
      defaultModelFetcher = ModelFetcher 0,
      sileroNew = (\<lambda>f w. (Inr fp0, w)),
      newFrameProcessor = (\<lambda>m cfg. m),
      fpProcess = p,
      fpPause = (\<lambda>fp. fp),
      fpResume = (\<lambda>fp. fp),
      getUserMedia = (\<lambda>c w. (Inr (MediaStream 0), w)),
      newAudioContext = (\<lambda>w. (AudioContext 0, w)),
      addModule = (\<lambda>c u w. (None, w)),
      connect = (\<lambda>s n w. w)\<rparr>"

text \<open>A frame processor that answers every frame with the same result.\<close>

definition answering :: "ProcessResult \<Rightarrow> unit \<Rightarrow> Frame \<Rightarrow> (VADError + ProcessResult) \<times> unit" where
  "answering r fp frame = (Inr r, fp)"

definition exampleVAD :: "(unit, unit) AudioNodeVAD" where
  "exampleVAD =
     \<lparr>ctx = AudioContext 0,
      options = defaults (stubEnv (answering \<lparr>probs = None, msg = None, audio = None\<rparr>) ()),
      frameProcessor = Some (),
      entryNode = None\<rparr>"


text \<open>
  The same environment with the validation and the frame processor of the two sections
  above, around a given probability model.
\<close>

definition specEnv :: "'m ProbabilityModel \<Rightarrow> ('w, 'm FrameProcessor, 'm ProbabilityModel) Env" where
  "specEnv pm =
     \<lparr>validate = validateOptions,
      defaultFrameProcessorOptions = exampleConfig,
      logDebug = (\<lambda>s w. w),
      assetPath = (\<lambda>s. ''/'' @ s),
      defaultModelFetcher = ModelFetcher 0,
      sileroNew = (\<lambda>f w. (Inr pm, w)),
      newFrameProcessor = FrameProcessor_new,
      fpProcess = FrameProcessor_process,
      fpPause = FrameProcessor_pause,
      fpResume = FrameProcessor_resume,
      getUserMedia = (\<lambda>c w. (Inr (MediaStream 0), w)),
      newAudioContext = (\<lambda>w. (AudioContext 0, w)),
      addModule = (\<lambda>c u w. (None, w)),
      connect = (\<lambda>s n w. w)\<rparr>"

text \<open>
  A frame of 480 samples that is not flagged silent, a result carrying a probability, a
  message and two samples of audio, and the detectors that \<^verbatim>\<open>AudioNodeVAD.new\<close> and
  \<^verbatim>\<open>MicVAD.new\<close> return in these environments when the frame processor created is \<open>fp\<close>.
\<close>

definition exampleFrame :: Frame where
  "exampleFrame = \<lparr>samples = replicate 480 (Sample (1/2)), isEmpty = False\<rparr>"

definition exampleResult :: "Message option \<Rightarrow> ProcessResult" where
  "exampleResult m =
     \<lparr>probs = Some \<lparr>notSpeech = 0.2, isSpeech = 0.8\<rparr>, msg = m,
      audio = Some [Sample (1/2), Sample (- 1/4)]\<rparr>"

definition initialisedNode ::
  "('w, 'fp, 'model) Env \<Rightarrow> 'w Property list \<Rightarrow> 'fp \<Rightarrow> ('w, 'fp) AudioNodeVAD" where
  "initialisedNode env partial fp =
     \<lparr>ctx = AudioContext 0,
      options = spread (defaults env) partial,
      frameProcessor = Some fp,
      entryNode =
        Some \<lparr>processorName = ''vad-helper-worklet'',
              processorFrameSamples = frameSamples (spread (defaults env) partial),
              portOnmessage = True\<rparr>\<rparr>"

definition initialised ::
  "('w, 'fp, 'model) Env \<Rightarrow> 'w Property list \<Rightarrow> 'fp \<Rightarrow> ('w, 'fp) MicVAD" where
  "initialised env partial fp =
     \<lparr>options = spread (defaults env) partial,
      audioContext = Some (AudioContext 0),
      stream = Some (MediaStream 0),
      audioNodeVAD = Some (initialisedNode env partial fp),
      listening = False\<rparr>"

text \<open>A caller's partial options, and an environment in the world without state.\<close>

definition examplePartial :: "unit Property list" where
  "examplePartial = [PositiveSpeechThreshold (7/10), MinSpeechFrames 5]"

definition exampleEnv :: "(unit, unit, unit) Env" where
  "exampleEnv = stubEnv (answering (exampleResult None)) ()"

text \<open>The frame processor of the example after its first four frames: in mid-utterance.\<close>

definition midUtterance :: "real list FrameProcessor" where
  "midUtterance =
     snd (processAll
            (FrameProcessor_resume
               (FrameProcessor_new (scriptedModel exampleProbabilities) exampleConfig))
            (replicate 4 exampleFrame))"

text \<open>
  The environment of the spec's example in the world without state, and a listening
  \<^verbatim>\<open>MicVAD\<close> in it whose frame processor is in mid-utterance.
\<close>

definition exampleSpecEnv :: "(unit, real list FrameProcessor, real list ProbabilityModel) Env" where
  "exampleSpecEnv = specEnv (scriptedModel exampleProbabilities)"

definition exampleMic :: "(unit, real list FrameProcessor) MicVAD" where
  "exampleMic = (initialised exampleSpecEnv [] midUtterance)\<lparr>listening := True\<rparr>"

section \<open>The silence flag\<close>

lemma makeFrame_samples: "samples (makeFrame smps) = smps"
  by (simp add: makeFrame_def)

lemma makeFrame_isEmpty: "isEmpty (makeFrame smps) = list_all (\<lambda>s. \<not> strictEqZero s) smps"
  by (simp add: makeFrame_def list_ex_iff list_all_iff)

text \<open>
  C1. The claim: the silence flag \<^verbatim>\<open>isEmpty\<close> is true exactly when the frame carries no
  audio, so an all-zero frame is flagged silent and a frame of ordinary non-zero audio is
  not. The expression of line 181 computes the opposite: an all-zero frame, of three or of
  480 samples, gets \<^verbatim>\<open>isEmpty = false\<close>, and a frame without a zero sample gets
  \<^verbatim>\<open>isEmpty = true\<close>.
\<close>

theorem makeFrame_isEmpty_inverted:
  "isEmpty (makeFrame [Sample 0, Sample 0, Sample 0]) = False
   \<and> isEmpty (makeFrame (replicate 480 (Sample 0))) = False
   \<and> isEmpty (makeFrame [Sample (1/2), Sample (- 1/4)]) = True
   \<and> isEmpty (makeFrame (replicate 480 (Sample (1/2)))) = True"
  by (simp add: makeFrame_def list_ex_iff)

section \<open>The callbacks of one frame\<close>

lemma observed_simps:
  "frameProcessor (observed vad) = frameProcessor vad"
  "AudioNodeVAD.options (observed vad) = logging (AudioNodeVAD.options vad)"
  by (simp_all add: observed_def)

lemma logging_callbacks:
  "onFrameProcessed (logging opts) = (\<lambda>p. logged (FrameProcessedCall p) (onFrameProcessed opts p))"
  "onVADMisfire (logging opts) = logged VADMisfireCall (onVADMisfire opts)"
  "onSpeechStart (logging opts) = logged SpeechStartCall (onSpeechStart opts)"
  "onSpeechEnd (logging opts) = (\<lambda>a. logged (SpeechEndCall a) (onSpeechEnd opts a))"
  "onSpeechSegment (logging opts) = (\<lambda>a. logged (SpeechSegmentCall a) (onSpeechSegment opts a))"
  by (simp_all add: logging_def)

text \<open>
  The wrapped switch does what the switch does, and logs the callback of the message
  whether that callback returns or throws.
\<close>

lemma dispatch_logging:
  "dispatch (logging opts) m a (l, w) =
     (case dispatch opts m a w of
        (e, w') \<Rightarrow>
          (e, (l @ (case m of
                      Some SpeechStart \<Rightarrow> [SpeechStartCall]
                    | Some VADMisfire \<Rightarrow> [VADMisfireCall]
                    | Some SpeechEnd \<Rightarrow> [SpeechEndCall a]
                    | Some SpeechSegment \<Rightarrow> [SpeechSegmentCall a]
                    | _ \<Rightarrow> []), w')))"
proof (cases m)
  case None
  then show ?thesis by simp
next
  case (Some x)
  then show ?thesis
    by (cases x) (simp_all add: logging_callbacks split: prod.splits)
qed

text \<open>
  The invocations of one call, read off the code: none when the frame processor is missing
  or fails; otherwise the probability, if there is one, and then, unless reporting the
  probability threw, the callback of the message.
\<close>

lemma invocations_eq:
  "invocations env vad smps w =
     (case frameProcessor vad of
        None \<Rightarrow> []
      | Some fp \<Rightarrow>
          (case fst (fpProcess env fp (makeFrame smps)) of
             Inl e \<Rightarrow> []
           | Inr r \<Rightarrow>
               (case probs r of Some p \<Rightarrow> [FrameProcessedCall p] | None \<Rightarrow> [])
               @ (if reportThrows (AudioNodeVAD.options vad) r w then []
                  else (case msg r of
                          Some SpeechStart \<Rightarrow> [SpeechStartCall]
                        | Some VADMisfire \<Rightarrow> [VADMisfireCall]
                        | Some SpeechEnd \<Rightarrow> [SpeechEndCall (audio r)]
                        | Some SpeechSegment \<Rightarrow> [SpeechSegmentCall (audio r)]
                        | _ \<Rightarrow> []))))"
proof (cases "frameProcessor vad")
  case None
  then show ?thesis
    by (simp add: invocations_def processFrame_def observed_simps)
next
  case (Some fp)
  obtain res fp' where p: "fpProcess env fp (makeFrame smps) = (res, fp')"
    by (cases "fpProcess env fp (makeFrame smps)")
  show ?thesis
  proof (cases res)
    case (Inl e)
    with Some p show ?thesis
      by (simp add: invocations_def processFrame_def observed_simps)
  next
    case (Inr r)
    show ?thesis
    proof (cases "probs r")
      case None
      with Some p Inr show ?thesis
        by (simp add: invocations_def processFrame_def observed_simps dispatch_logging
              reportThrows_def split: prod.splits)
    next
      case (Some q)
      obtain e w1 where c: "onFrameProcessed (AudioNodeVAD.options vad) q w = (e, w1)"
        by (cases "onFrameProcessed (AudioNodeVAD.options vad) q w")
      with \<open>frameProcessor vad = Some fp\<close> p Inr Some show ?thesis
        by (cases e)
           (simp_all add: invocations_def processFrame_def observed_simps dispatch_logging
              logging_callbacks reportThrows_def split: prod.splits)
    qed
  qed
qed

text \<open>
  Observing is faithful: the wrapped callbacks leave the outcome of the call and the
  caller's world as the caller's own callbacks do.
\<close>

lemma observed_faithful:
  assumes "fpProcess env' = fpProcess env"
  shows "fst (processFrame env' (observed vad) smps (l, w)) = fst (processFrame env vad smps w)
       \<and> snd (snd (snd (processFrame env' (observed vad) smps (l, w))))
           = snd (snd (processFrame env vad smps w))"
proof (cases "frameProcessor vad")
  case None
  then show ?thesis
    by (simp add: processFrame_def observed_simps)
next
  case (Some fp)
  obtain res fp' where p: "fpProcess env fp (makeFrame smps) = (res, fp')"
    by (cases "fpProcess env fp (makeFrame smps)")
  show ?thesis
  proof (cases res)
    case (Inl e)
    with Some p assms show ?thesis
      by (simp add: processFrame_def observed_simps)
  next
    case (Inr r)
    with Some p assms show ?thesis
      by (auto simp add: processFrame_def observed_simps dispatch_logging logging_callbacks
            split: option.splits prod.splits)
  qed
qed

text \<open>
  C2. The claim: every call of \<^verbatim>\<open>processFrame\<close> invokes \<^verbatim>\<open>onFrameProcessed\<close>. Line 183
  guards the call with \<^verbatim>\<open>probs !== undefined\<close>: when the frame processor resolves to an
  object without \<^verbatim>\<open>probs\<close>, no callback at all is invoked.
\<close>

theorem onFrameProcessed_not_always:
  "invocations (stubEnv (answering \<lparr>probs = None, msg = None, audio = None\<rparr>) ())
     exampleVAD [Sample (1/2), Sample (- 1/4)] () = []"
  by (simp add: invocations_eq exampleVAD_def stubEnv_def answering_def reportThrows_def)

text \<open>
  C2, as amended. Whenever the frame processor resolves to a result, \<^verbatim>\<open>onFrameProcessed\<close>
  is invoked exactly once, with the result's \<^verbatim>\<open>probs\<close>, if the result has \<^verbatim>\<open>probs\<close>, and
  not at all if it has none; this does not depend on the message of the result.
\<close>

theorem onFrameProcessed_iff_probs:
  assumes "frameProcessor vad = Some fp"
    and "fpProcess env fp (makeFrame smps) = (Inr r, fp')"
  shows "filter (\<lambda>i. \<not> isLifecycle i) (invocations env vad smps w) =
           (case probs r of Some p \<Rightarrow> [FrameProcessedCall p] | None \<Rightarrow> [])"
  using assms
  by (simp add: invocations_eq split: option.splits Message.splits)

theorem onFrameProcessed_iff_probs_witness:
  "frameProcessor exampleVAD = Some ()
   \<and> fpProcess (stubEnv (answering (exampleResult (Some SpeechEnd))) ()) ()
        (makeFrame [Sample (1/2)]) = (Inr (exampleResult (Some SpeechEnd)), ())
   \<and> filter (\<lambda>i. \<not> isLifecycle i)
        (invocations (stubEnv (answering (exampleResult (Some SpeechEnd))) ()) exampleVAD
           [Sample (1/2)] ())
      = [FrameProcessedCall \<lparr>notSpeech = 0.2, isSpeech = 0.8\<rparr>]"
  using onFrameProcessed_iff_probs
    [of exampleVAD "()" "stubEnv (answering (exampleResult (Some SpeechEnd))) ()"
       "[Sample (1/2)]" "exampleResult (Some SpeechEnd)" "()" "()"]
  by (simp add: exampleVAD_def stubEnv_def answering_def exampleResult_def)

text \<open>
  C3. One call of \<^verbatim>\<open>processFrame\<close> invokes at most one of \<^verbatim>\<open>onSpeechStart\<close>,
  \<^verbatim>\<open>onSpeechEnd\<close>, \<^verbatim>\<open>onVADMisfire\<close> and \<^verbatim>\<open>onSpeechSegment\<close>.
\<close>

theorem at_most_one_lifecycle_callback:
  "length (filter isLifecycle (invocations env vad smps w)) \<le> 1"
  by (simp add: invocations_eq split: option.splits sum.splits Message.splits)




text \<open>
  C10. When the frame processor returns a probability, \<^verbatim>\<open>onFrameProcessed\<close> is the first
  callback invoked in that call, and everything invoked after it is the lifecycle callback
  of the frame, if any: no lifecycle callback precedes the probability.
\<close>

theorem onFrameProcessed_before_lifecycle:
  assumes "frameProcessor vad = Some fp"
    and "fpProcess env fp (makeFrame smps) = (Inr r, fp')"
    and "probs r = Some p"
  shows "invocations env vad smps w =
           FrameProcessedCall p # filter isLifecycle (invocations env vad smps w)"
  using assms
  by (simp add: invocations_eq split: option.splits Message.splits)

theorem onFrameProcessed_before_lifecycle_witness:
  "frameProcessor exampleVAD = Some ()
   \<and> fpProcess (stubEnv (answering (exampleResult (Some SpeechStart))) ()) ()
        (makeFrame [Sample 0]) = (Inr (exampleResult (Some SpeechStart)), ())
   \<and> probs (exampleResult (Some SpeechStart)) = Some \<lparr>notSpeech = 0.2, isSpeech = 0.8\<rparr>
   \<and> invocations (stubEnv (answering (exampleResult (Some SpeechStart))) ()) exampleVAD
        [Sample 0] ()
      = [FrameProcessedCall \<lparr>notSpeech = 0.2, isSpeech = 0.8\<rparr>, SpeechStartCall]"
  using onFrameProcessed_before_lifecycle
    [of exampleVAD "()" "stubEnv (answering (exampleResult (Some SpeechStart))) ()"
       "[Sample 0]" "exampleResult (Some SpeechStart)" "()"
       "\<lparr>notSpeech = 0.2, isSpeech = 0.8\<rparr>" "()"]
  by (simp add: invocations_eq exampleVAD_def stubEnv_def answering_def exampleResult_def
        reportThrows_def defaults_def defaultRealTimeVADOptions_def)

section \<open>Options of a new detector\<close>

lemma getProperty_setProperty:
  "getProperty k (setProperty p opts) = (if keyOf p = k then Some p else getProperty k opts)"
  by (cases p) (auto simp add: getProperty_def ownProperties_def)

lemma spread_snoc: "spread base (ps @ [p]) = setProperty p (spread base ps)"
  by (simp add: spread_def)

lemma lookupProperty_snoc:
  "lookupProperty k (ps @ [p]) = (if keyOf p = k then Some p else lookupProperty k ps)"
  by (simp add: lookupProperty_def)

text \<open>A spread overrides the base pointwise.\<close>

lemma getProperty_spread:
  "getProperty k (spread base ps) =
     (case lookupProperty k ps of Some p \<Rightarrow> Some p | None \<Rightarrow> getProperty k base)"
proof (induction ps rule: rev_induct)
  case Nil
  then show ?case by (simp add: spread_def lookupProperty_def)
next
  case (snoc p ps)
  then show ?case
    by (simp add: spread_snoc lookupProperty_snoc getProperty_setProperty)
qed

text \<open>Spreading a complete options object over anything gives that object.\<close>

lemma spread_ownProperties: "spread base (ownProperties opts) = opts"
  by (simp add: spread_def ownProperties_def)

lemma AudioNodeVAD_init_options:
  "AudioNodeVAD_init env vad w = (err, vad', w') \<Longrightarrow>
     AudioNodeVAD.options vad' = AudioNodeVAD.options vad"
  by (auto simp add: AudioNodeVAD_init_def Let_def split: prod.splits option.splits sum.splits)

lemma AudioNodeVAD_new_options:
  assumes "AudioNodeVAD_new env c partial w = (Inr vad, w')"
  shows "AudioNodeVAD.options vad = spread (defaults env) partial"
proof -
  from assms obtain vad0 w0 where
    c: "AudioNodeVAD_constructor env c (spread (defaults env) partial) = Inr vad0"
    and i: "AudioNodeVAD_init env vad0 w = (None, vad, w0)"
    by (auto simp add: AudioNodeVAD_new_def split: sum.splits prod.splits option.splits)
  from c have "AudioNodeVAD.options vad0 = spread (defaults env) partial"
    by (auto simp add: AudioNodeVAD_constructor_def split: option.splits)
  with AudioNodeVAD_init_options [OF i] show ?thesis by simp
qed

lemma MicVAD_init_options:
  "MicVAD_init env v w = (err, v', w') \<Longrightarrow> options v' = options v"
  by (auto simp add: MicVAD_init_def Let_def split: prod.splits option.splits sum.splits)

lemma MicVAD_new_options:
  assumes "MicVAD_new env partial w = (Inr v, w')"
  shows "options v = spread (defaults env) partial"
proof -
  from assms obtain v0 w0 where
    c: "MicVAD_constructor env (spread (defaults env) partial) = Inr v0"
    and i: "MicVAD_init env v0 w = (None, v, w0)"
    by (auto simp add: MicVAD_new_def split: sum.splits prod.splits option.splits)
  from c have "options v0 = spread (defaults env) partial"
    by (auto simp add: MicVAD_constructor_def split: option.splits)
  with MicVAD_init_options [OF i] show ?thesis by simp
qed

text \<open>The detector inside a \<^verbatim>\<open>MicVAD\<close> is built from the very options of the \<^verbatim>\<open>MicVAD\<close>.\<close>

lemma MicVAD_init_inner_options:
  assumes "MicVAD_init env v w = (None, v', w')"
  shows "\<exists>vad. audioNodeVAD v' = Some vad \<and> AudioNodeVAD.options vad = options v"
  using assms
  by (auto simp add: MicVAD_init_def Let_def spread_ownProperties
        split: prod.splits option.splits sum.splits dest!: AudioNodeVAD_new_options)

text \<open>
  C8. The instance that \<^verbatim>\<open>MicVAD.new\<close> or \<^verbatim>\<open>AudioNodeVAD.new\<close> returns for a partial options
  object holds, under every key, the property the caller supplied if there is one and the
  property of \<^verbatim>\<open>defaultRealTimeVADOptions\<close> otherwise; the defaults have
  \<^verbatim>\<open>stream: undefined\<close> and the worklet URL \<^verbatim>\<open>assetPath("vad.worklet.bundle.min.js")\<close>.
\<close>

theorem new_overrides_defaults_pointwise:
  "(MicVAD_new env partial w = (Inr v, w1) \<longrightarrow>
      (\<forall>k. getProperty k (options v) =
            (case lookupProperty k partial of
               Some p \<Rightarrow> Some p
             | None \<Rightarrow> getProperty k (defaults env))))
   \<and> (AudioNodeVAD_new env c partial w = (Inr vad, w2) \<longrightarrow>
      (\<forall>k. getProperty k (AudioNodeVAD.options vad) =
            (case lookupProperty k partial of
               Some p \<Rightarrow> Some p
             | None \<Rightarrow> getProperty k (defaults env))))
   \<and> getProperty ''stream'' (defaults env) = Some (Stream None)
   \<and> getProperty ''workletURL'' (defaults env)
       = Some (WorkletURL (assetPath env ''vad.worklet.bundle.min.js''))"
proof (intro conjI impI allI)
  fix k
  assume "MicVAD_new env partial w = (Inr v, w1)"
  then show "getProperty k (options v) =
      (case lookupProperty k partial of
         Some p \<Rightarrow> Some p
       | None \<Rightarrow> getProperty k (defaults env))"
    by (simp add: MicVAD_new_options getProperty_spread)
next
  fix k
  assume "AudioNodeVAD_new env c partial w = (Inr vad, w2)"
  then show "getProperty k (AudioNodeVAD.options vad) =
      (case lookupProperty k partial of
         Some p \<Rightarrow> Some p
       | None \<Rightarrow> getProperty k (defaults env))"
    by (simp add: AudioNodeVAD_new_options getProperty_spread)
next
  show "getProperty ''stream'' (defaults env) = Some (Stream None)"
    by (simp add: getProperty_def ownProperties_def defaults_def defaultRealTimeVADOptions_def)
next
  show "getProperty ''workletURL'' (defaults env)
       = Some (WorkletURL (assetPath env ''vad.worklet.bundle.min.js''))"
    by (simp add: getProperty_def ownProperties_def defaults_def defaultRealTimeVADOptions_def
          getWorkletURL_def)
qed

lemma example_news:
  "MicVAD_new exampleEnv examplePartial w
     = (Inr (initialised exampleEnv examplePartial ()), w)"
  "AudioNodeVAD_new exampleEnv (AudioContext 0) examplePartial w
     = (Inr (initialisedNode exampleEnv examplePartial ()), w)"
  by (simp_all add: MicVAD_new_def MicVAD_constructor_def MicVAD_init_def AudioNodeVAD_new_def
        AudioNodeVAD_constructor_def AudioNodeVAD_init_def receive_def initialised_def
        initialisedNode_def exampleEnv_def examplePartial_def stubEnv_def spread_def
        defaults_def defaultRealTimeVADOptions_def ownProperties_def Let_def)

theorem new_overrides_defaults_pointwise_witness:
  "MicVAD_new exampleEnv examplePartial ()
     = (Inr (initialised exampleEnv examplePartial ()), ())
   \<and> AudioNodeVAD_new exampleEnv (AudioContext 0) examplePartial ()
     = (Inr (initialisedNode exampleEnv examplePartial ()), ())
   \<and> getProperty ''positiveSpeechThreshold''
        (options (initialised exampleEnv examplePartial ()))
      = Some (PositiveSpeechThreshold (7/10))
   \<and> getProperty ''negativeSpeechThreshold''
        (options (initialised exampleEnv examplePartial ()))
      = Some (NegativeSpeechThreshold (35/100))
   \<and> getProperty ''minSpeechFrames''
        (AudioNodeVAD.options (initialisedNode exampleEnv examplePartial ()))
      = Some (MinSpeechFrames 5)
   \<and> getProperty ''workletURL''
        (AudioNodeVAD.options (initialisedNode exampleEnv examplePartial ()))
      = Some (WorkletURL ''/vad.worklet.bundle.min.js'')"
proof -
  note t = new_overrides_defaults_pointwise
    [of exampleEnv examplePartial "()" "initialised exampleEnv examplePartial ()" "()"
       "AudioContext 0" "initialisedNode exampleEnv examplePartial ()" "()"]
  have m: "MicVAD_new exampleEnv examplePartial ()
             = (Inr (initialised exampleEnv examplePartial ()), ())"
    by (rule example_news)
  have a: "AudioNodeVAD_new exampleEnv (AudioContext 0) examplePartial ()
             = (Inr (initialisedNode exampleEnv examplePartial ()), ())"
    by (rule example_news)
  from t m have mk: "getProperty k (options (initialised exampleEnv examplePartial ())) =
      (case lookupProperty k examplePartial of
         Some p \<Rightarrow> Some p
       | None \<Rightarrow> getProperty k (defaults exampleEnv))"
    for k by blast
  from t a have ak:
    "getProperty k (AudioNodeVAD.options (initialisedNode exampleEnv examplePartial ())) =
      (case lookupProperty k examplePartial of
         Some p \<Rightarrow> Some p
       | None \<Rightarrow> getProperty k (defaults exampleEnv))"
    for k by blast
  have d: "getProperty ''negativeSpeechThreshold'' (defaults exampleEnv)
             = Some (NegativeSpeechThreshold (35/100))"
    by (simp add: exampleEnv_def stubEnv_def exampleConfig_def getProperty_def
          ownProperties_def defaults_def defaultRealTimeVADOptions_def)
  from t have u: "getProperty ''workletURL'' (defaults exampleEnv)
             = Some (WorkletURL ''/vad.worklet.bundle.min.js'')"
    by (simp add: exampleEnv_def stubEnv_def)
  have "getProperty ''positiveSpeechThreshold''
          (options (initialised exampleEnv examplePartial ()))
        = Some (PositiveSpeechThreshold (7/10))"
    unfolding mk by (simp add: lookupProperty_def examplePartial_def)
  moreover have "getProperty ''negativeSpeechThreshold''
          (options (initialised exampleEnv examplePartial ()))
        = Some (NegativeSpeechThreshold (35/100))"
    unfolding mk by (simp add: lookupProperty_def examplePartial_def d)
  moreover have "getProperty ''minSpeechFrames''
          (AudioNodeVAD.options (initialisedNode exampleEnv examplePartial ()))
        = Some (MinSpeechFrames 5)"
    unfolding ak by (simp add: lookupProperty_def examplePartial_def)
  moreover have "getProperty ''workletURL''
          (AudioNodeVAD.options (initialisedNode exampleEnv examplePartial ()))
        = Some (WorkletURL ''/vad.worklet.bundle.min.js'')"
    unfolding ak by (simp add: lookupProperty_def examplePartial_def u)
  ultimately show ?thesis
    using m a by blast
qed


section \<open>Validation at construction\<close>

lemma validateOptions_violation:
  assumes "violatesConstraint opts"
  shows "\<exists>f. f \<in> set (offendingFields opts) \<and> validateOptions opts = Some (ConfigError f)"
  using assms
  by (auto simp add: violatesConstraint_def offendingFields_def validateOptions_def)

text \<open>
  C5. With the validation of the spec, constructing a \<^verbatim>\<open>MicVAD\<close> or an \<^verbatim>\<open>AudioNodeVAD\<close>
  from options that violate a constraint (a threshold outside \<open>[0,1]\<close>, the negative
  threshold above the positive one, \<^verbatim>\<open>frameSamples\<close> or \<^verbatim>\<open>minSpeechFrames\<close> not positive,
  \<^verbatim>\<open>maxSpeechFrames\<close> below \<^verbatim>\<open>minSpeechFrames\<close>) fails with a \<^verbatim>\<open>ConfigError\<close> that names a
  field of a violated constraint. The constructor raises it, so \<^verbatim>\<open>new\<close> fails before
  \<^verbatim>\<open>init\<close> runs: the world is untouched and no instance exists to process a frame.
\<close>

theorem invalid_configuration_rejected:
  assumes "validate env = validateOptions"
  shows "(violatesConstraint opts \<longrightarrow>
            (\<exists>f. f \<in> set (offendingFields opts)
                 \<and> MicVAD_constructor env opts = Inl (ConfigError f)
                 \<and> AudioNodeVAD_constructor env c opts = Inl (ConfigError f)))
       \<and> (violatesConstraint (spread (defaults env) partial) \<longrightarrow>
            (\<exists>f. f \<in> set (offendingFields (spread (defaults env) partial))
                 \<and> MicVAD_new env partial w = (Inl (ConfigError f), w)
                 \<and> AudioNodeVAD_new env c partial w = (Inl (ConfigError f), w)))"
proof (intro conjI impI)
  assume "violatesConstraint opts"
  then obtain f where "f \<in> set (offendingFields opts)"
    and "validateOptions opts = Some (ConfigError f)"
    using validateOptions_violation by blast
  with assms show "\<exists>f. f \<in> set (offendingFields opts)
      \<and> MicVAD_constructor env opts = Inl (ConfigError f)
      \<and> AudioNodeVAD_constructor env c opts = Inl (ConfigError f)"
    by (auto simp add: MicVAD_constructor_def AudioNodeVAD_constructor_def)
next
  assume "violatesConstraint (spread (defaults env) partial)"
  then obtain f where "f \<in> set (offendingFields (spread (defaults env) partial))"
    and "validateOptions (spread (defaults env) partial) = Some (ConfigError f)"
    using validateOptions_violation by blast
  with assms show "\<exists>f. f \<in> set (offendingFields (spread (defaults env) partial))
      \<and> MicVAD_new env partial w = (Inl (ConfigError f), w)
      \<and> AudioNodeVAD_new env c partial w = (Inl (ConfigError f), w)"
    by (auto simp add: MicVAD_new_def AudioNodeVAD_new_def MicVAD_constructor_def
          AudioNodeVAD_constructor_def)
qed

lemma exampleSpecEnv_defaults:
  "frameSamples (defaults exampleSpecEnv) = 480"
  "positiveSpeechThreshold (defaults exampleSpecEnv) = 1/2"
  "negativeSpeechThreshold (defaults exampleSpecEnv) = 35/100"
  "redemptionFrames (defaults exampleSpecEnv) = 8"
  "preSpeechPadFrames (defaults exampleSpecEnv) = 1"
  "minSpeechFrames (defaults exampleSpecEnv) = 3"
  "maxSpeechFrames (defaults exampleSpecEnv) = 1000"
  by (simp_all add: exampleSpecEnv_def specEnv_def defaults_def defaultRealTimeVADOptions_def
        exampleConfig_def)

theorem invalid_configuration_rejected_witness:
  "validate exampleSpecEnv = validateOptions
   \<and> violatesConstraint ((defaults exampleSpecEnv)\<lparr>positiveSpeechThreshold := 3/2\<rparr>)
   \<and> MicVAD_constructor exampleSpecEnv ((defaults exampleSpecEnv)\<lparr>positiveSpeechThreshold := 3/2\<rparr>)
       = Inl (ConfigError ''positiveSpeechThreshold'')
   \<and> AudioNodeVAD_constructor exampleSpecEnv (AudioContext 0)
         ((defaults exampleSpecEnv)\<lparr>positiveSpeechThreshold := 3/2\<rparr>)
       = Inl (ConfigError ''positiveSpeechThreshold'')
   \<and> violatesConstraint (spread (defaults exampleSpecEnv) [MaxSpeechFrames 2])
   \<and> MicVAD_new exampleSpecEnv [MaxSpeechFrames 2] ()
       = (Inl (ConfigError ''maxSpeechFrames''), ())
   \<and> AudioNodeVAD_new exampleSpecEnv (AudioContext 0) [MaxSpeechFrames 2] ()
       = (Inl (ConfigError ''maxSpeechFrames''), ())"
proof -
  have v: "validate exampleSpecEnv = validateOptions"
    by (simp add: exampleSpecEnv_def specEnv_def)
  note t = invalid_configuration_rejected
    [OF v, of "(defaults exampleSpecEnv)\<lparr>positiveSpeechThreshold := 3/2\<rparr>" "AudioContext 0"
       "[MaxSpeechFrames 2]" "()"]
  have c1: "violatesConstraint ((defaults exampleSpecEnv)\<lparr>positiveSpeechThreshold := 3/2\<rparr>)"
    by (simp add: violatesConstraint_def)
  have o1: "offendingFields ((defaults exampleSpecEnv)\<lparr>positiveSpeechThreshold := 3/2\<rparr>)
              = [''positiveSpeechThreshold'']"
    by (simp add: offendingFields_def exampleSpecEnv_defaults)
  have c2: "violatesConstraint (spread (defaults exampleSpecEnv) [MaxSpeechFrames 2])"
    by (simp add: violatesConstraint_def spread_def exampleSpecEnv_defaults)
  have o2: "offendingFields (spread (defaults exampleSpecEnv) [MaxSpeechFrames 2])
              = [''maxSpeechFrames'', ''minSpeechFrames'']"
    by (simp add: offendingFields_def spread_def exampleSpecEnv_defaults)
  from t c1 o1 have r1:
    "MicVAD_constructor exampleSpecEnv ((defaults exampleSpecEnv)\<lparr>positiveSpeechThreshold := 3/2\<rparr>)
       = Inl (ConfigError ''positiveSpeechThreshold'')
     \<and> AudioNodeVAD_constructor exampleSpecEnv (AudioContext 0)
         ((defaults exampleSpecEnv)\<lparr>positiveSpeechThreshold := 3/2\<rparr>)
       = Inl (ConfigError ''positiveSpeechThreshold'')"
    by auto
  from t c2 o2 obtain f where f: "f = ''maxSpeechFrames'' \<or> f = ''minSpeechFrames''"
    and n: "MicVAD_new exampleSpecEnv [MaxSpeechFrames 2] () = (Inl (ConfigError f), ())"
           "AudioNodeVAD_new exampleSpecEnv (AudioContext 0) [MaxSpeechFrames 2] ()
              = (Inl (ConfigError f), ())"
    by auto
  have "MicVAD_new exampleSpecEnv [MaxSpeechFrames 2] ()
          = (Inl (ConfigError ''maxSpeechFrames''), ())"
    by (simp add: MicVAD_new_def MicVAD_constructor_def v validateOptions_def spread_def
          exampleSpecEnv_defaults)
  with n have "f = ''maxSpeechFrames''" by simp
  with n r1 v c1 c2 show ?thesis by simp
qed

section \<open>Messages from the worklet\<close>

text \<open>
  C9. A message whose data is absent, or whose \<^verbatim>\<open>message\<close> field is not
  \<^verbatim>\<open>Message.AudioFrame\<close>, leaves the detector and the world as they are and invokes no
  callback; a message tagged \<^verbatim>\<open>Message.AudioFrame\<close> is handled by \<^verbatim>\<open>processFrame\<close> on the
  samples of the buffer it carries.
\<close>

theorem onmessage_only_audio_frames:
  "((ev = None \<or> (\<exists>d. ev = Some d \<and> message d \<noteq> Some AudioFrame)) \<longrightarrow>
      onmessage env vad ev w = (None, vad, w)
      \<and> fst (snd (snd (onmessage env' (observed vad) ev ([], w)))) = [])
   \<and> (\<forall>d. ev = Some d \<and> message d = Some AudioFrame \<longrightarrow>
      onmessage env vad ev w = processFrame env vad (data d) w)"
  by (auto simp add: onmessage_def split: option.splits Message.splits)

theorem onmessage_only_audio_frames_witness:
  "onmessage exampleEnv exampleVAD None () = (None, exampleVAD, ())
   \<and> onmessage exampleEnv exampleVAD
        (Some \<lparr>message = Some SpeechStart, data = [Sample (1/2)]\<rparr>) () = (None, exampleVAD, ())
   \<and> onmessage exampleEnv exampleVAD (Some \<lparr>message = None, data = [Sample (1/2)]\<rparr>) ()
        = (None, exampleVAD, ())
   \<and> fst (snd (snd (onmessage (stubEnv (answering (exampleResult (Some SpeechEnd))) ())
                       (observed exampleVAD)
                       (Some \<lparr>message = Some SpeechStart, data = [Sample (1/2)]\<rparr>)
                       ([], ())))) = []
   \<and> onmessage exampleEnv exampleVAD
        (Some \<lparr>message = Some AudioFrame, data = [Sample (1/2)]\<rparr>) ()
        = processFrame exampleEnv exampleVAD [Sample (1/2)] ()"
  using
    onmessage_only_audio_frames
      [of None exampleEnv exampleVAD "()"
         "stubEnv (answering (exampleResult (Some SpeechEnd))) ()"]
    onmessage_only_audio_frames
      [of "Some \<lparr>message = Some SpeechStart, data = [Sample (1/2)]\<rparr>" exampleEnv exampleVAD "()"
         "stubEnv (answering (exampleResult (Some SpeechEnd))) ()"]
    onmessage_only_audio_frames
      [of "Some \<lparr>message = None, data = [Sample (1/2)]\<rparr>" exampleEnv exampleVAD "()"
         "stubEnv (answering (exampleResult (Some SpeechEnd))) ()"]
    onmessage_only_audio_frames
      [of "Some \<lparr>message = Some AudioFrame, data = [Sample (1/2)]\<rparr>" exampleEnv exampleVAD "()"
         "stubEnv (answering (exampleResult (Some SpeechEnd))) ()"]
  by simp


section \<open>The example of the spec\<close>

lemma length_15:
  assumes "length (fs :: 'a list) = 15"
  obtains a0 a1 a2 a3 a4 a5 a6 a7 a8 a9 a10 a11 a12 a13 a14
  where "fs = [a0, a1, a2, a3, a4, a5, a6, a7, a8, a9, a10, a11, a12, a13, a14]"
proof -
  from assms have
    "length fs = Suc (Suc (Suc (Suc (Suc (Suc (Suc (Suc (Suc (Suc (Suc (Suc (Suc (Suc (Suc
       0))))))))))))))"
    by simp
  then show ?thesis using that
    by (auto simp add: length_Suc_conv)
qed

text \<open>
  C6. With the configuration of the example, a resumed frame processor whose probability
  model yields the fifteen listed \<^verbatim>\<open>isSpeech\<close> values in order, fed any fifteen frames of 480
  samples that are not flagged silent, answers \<^verbatim>\<open>SpeechStart\<close> at index 2 and \<^verbatim>\<open>SpeechEnd\<close>
  with an audio payload of 5760 samples at index 12, and no message at any other index.
\<close>

theorem spec_example:
  assumes "length fs = 15"
    and "list_all (\<lambda>f. length (samples f) = 480 \<and> isEmpty f = False) fs"
  shows "map lifecycleOf
           (fst (processAll
                   (FrameProcessor_resume
                      (FrameProcessor_new (scriptedModel exampleProbabilities) exampleConfig))
                   fs))
         = [None, None, Some (SpeechStart, None), None, None, None, None, None, None, None,
            None, None, Some (SpeechEnd, Some 5760), None, None]"
proof -
  from assms(1) obtain a0 a1 a2 a3 a4 a5 a6 a7 a8 a9 a10 a11 a12 a13 a14
    where fs: "fs = [a0, a1, a2, a3, a4, a5, a6, a7, a8, a9, a10, a11, a12, a13, a14]"
    by (rule length_15)
  with assms(2) show ?thesis
    by (simp add: FrameProcessor_resume_def FrameProcessor_new_def scriptedModel_def
          exampleProbabilities_def exampleConfig_def FrameProcessor_process_def
          probabilityOf_def pushPad_def concatFrames_def resetModel_def Let_def)
qed

theorem spec_example_witness:
  "length (replicate 15 exampleFrame) = 15
   \<and> list_all (\<lambda>f. length (samples f) = 480 \<and> isEmpty f = False) (replicate 15 exampleFrame)
   \<and> map lifecycleOf
        (fst (processAll
                (FrameProcessor_resume
                   (FrameProcessor_new (scriptedModel exampleProbabilities) exampleConfig))
                (replicate 15 exampleFrame)))
      = [None, None, Some (SpeechStart, None), None, None, None, None, None, None, None,
         None, None, Some (SpeechEnd, Some 5760), None, None]"
proof -
  have l: "length (replicate 15 exampleFrame) = 15"
    by simp
  have a: "list_all (\<lambda>f. length (samples f) = 480 \<and> isEmpty f = False)
             (replicate 15 exampleFrame)"
    by (simp add: list_all_iff exampleFrame_def)
  from spec_example [OF l a] l a show ?thesis
    by blast
qed

text \<open>
  What the flag of line 181 does to this frame processor: frames flagged silent never start
  an utterance, whatever the model would say, and ordinary audio without a zero sample is
  flagged silent.
\<close>

lemma silent_frame_keeps_idle:
  assumes "active fp" and "segmenterState fp = Idle" and "isEmpty f"
    and "0 < positiveSpeechThreshold (configuration fp)"
  shows "lifecycleOf (fst (FrameProcessor_process fp f)) = None
       \<and> active (snd (FrameProcessor_process fp f))
       \<and> segmenterState (snd (FrameProcessor_process fp f)) = Idle
       \<and> configuration (snd (FrameProcessor_process fp f)) = configuration fp"
  using assms
  by (simp add: FrameProcessor_process_def probabilityOf_def Let_def)

lemma silent_frames_never_start:
  assumes "active fp" and "segmenterState fp = Idle"
    and "0 < positiveSpeechThreshold (configuration fp)"
    and "list_all isEmpty fs"
  shows "list_all (\<lambda>r. lifecycleOf r = None) (fst (processAll fp fs))"
  using assms
proof (induction fs arbitrary: fp)
  case Nil
  then show ?case by simp
next
  case (Cons f fs)
  from Cons.prems have f: "isEmpty f" and fs: "list_all isEmpty fs"
    by simp_all
  note k = silent_frame_keeps_idle [OF Cons.prems(1) Cons.prems(2) f Cons.prems(3)]
  obtain r fp' where p: "FrameProcessor_process fp f = (r, fp')"
    by (cases "FrameProcessor_process fp f")
  with k have r: "lifecycleOf r = None" and a: "active fp'"
    and i: "segmenterState fp' = Idle" and c: "configuration fp' = configuration fp"
    by simp_all
  from Cons.prems(3) c have t: "0 < positiveSpeechThreshold (configuration fp')"
    by simp
  from Cons.IH [OF a i t fs] p r show ?case
    by (auto split: prod.splits)
qed

lemma ordinary_audio_flagged_silent: "isEmpty (makeFrame (replicate 480 (Sample (1/2))))"
  by (simp add: makeFrame_isEmpty list_all_iff)

section \<open>Pause and resume\<close>

lemma midUtterance_eq:
  "midUtterance =
     \<lparr>probabilityModel =
        \<lparr>infer = scriptedInfer, resetState = (\<lambda>m. m),
         modelState = [0.8, 0.2, 0.1, 0.1, 0.1, 0.1, 0.1, 0.1, 0.1, 0.1, 0.1]\<rparr>,
      configuration = exampleConfig,
      active = True,
      ringPadBuffer = [exampleFrame],
      utteranceBuffer = [exampleFrame, exampleFrame, exampleFrame],
      segmenterState = ActiveSpeech 0,
      utteranceFrames = 2\<rparr>"
proof -
  have r: "replicate 4 exampleFrame = [exampleFrame, exampleFrame, exampleFrame, exampleFrame]"
    by (simp add: numeral_eq_Suc)
  have c: "preSpeechPadFrames exampleConfig = 1"
    "positiveSpeechThreshold exampleConfig = 1/2"
    "negativeSpeechThreshold exampleConfig = 35/100"
    "maxSpeechFrames exampleConfig = 1000"
    by (simp_all add: exampleConfig_def)
  have e: "isEmpty exampleFrame = False"
    by (simp add: exampleFrame_def)
  show ?thesis
    unfolding midUtterance_def r
    by (simp add: FrameProcessor_resume_def FrameProcessor_new_def scriptedModel_def
          exampleProbabilities_def FrameProcessor_process_def probabilityOf_def pushPad_def
          Let_def c e)
qed

text \<open>
  C7. For an initialised detector, with the pause and resume of the frame processor above:
  \<^verbatim>\<open>MicVAD.pause\<close> changes nothing but \<^verbatim>\<open>listening\<close> (to false) and the \<open>active\<close> flag of the
  frame processor, \<^verbatim>\<open>MicVAD.start\<close> nothing but \<^verbatim>\<open>listening\<close> (to true) and that flag, and
  \<^verbatim>\<open>AudioNodeVAD.pause\<close> and \<^verbatim>\<open>start\<close> nothing but that flag: the frame processor keeps its
  configuration, its model, both buffers, its state and its counters. A frame that arrives
  while paused changes nothing and reaches no callback. Pausing a listening detector and
  starting it again gives back exactly the detector there was, so the utterance goes on.
\<close>

theorem pause_and_start_keep_state:
  assumes "audioNodeVAD v = Some vad" and "frameProcessor vad = Some fp"
    and "fpPause env = FrameProcessor_pause" and "fpResume env = FrameProcessor_resume"
    and "fpProcess env = FrameProcessor_process"
  shows "MicVAD_pause env v =
           (None, v\<lparr>audioNodeVAD := Some (vad\<lparr>frameProcessor := Some (fp\<lparr>active := False\<rparr>)\<rparr>),
                    listening := False\<rparr>)
       \<and> MicVAD_start env v =
           (None, v\<lparr>audioNodeVAD := Some (vad\<lparr>frameProcessor := Some (fp\<lparr>active := True\<rparr>)\<rparr>),
                    listening := True\<rparr>)
       \<and> AudioNodeVAD_pause env vad = (None, vad\<lparr>frameProcessor := Some (fp\<lparr>active := False\<rparr>)\<rparr>)
       \<and> AudioNodeVAD_start env vad = (None, vad\<lparr>frameProcessor := Some (fp\<lparr>active := True\<rparr>)\<rparr>)
       \<and> processFrame env (snd (AudioNodeVAD_pause env vad)) smps w
           = (None, snd (AudioNodeVAD_pause env vad), w)
       \<and> (active fp \<and> listening v \<longrightarrow>
            MicVAD_start env (snd (MicVAD_pause env v)) = (None, v))"
  using assms
  by (simp add: MicVAD_pause_def MicVAD_start_def AudioNodeVAD_pause_def AudioNodeVAD_start_def
        FrameProcessor_pause_def FrameProcessor_resume_def processFrame_def
        FrameProcessor_process_def)

theorem pause_and_start_keep_state_witness:
  "audioNodeVAD exampleMic = Some (initialisedNode exampleSpecEnv [] midUtterance)
   \<and> frameProcessor (initialisedNode exampleSpecEnv [] midUtterance) = Some midUtterance
   \<and> fpPause exampleSpecEnv = FrameProcessor_pause
   \<and> fpResume exampleSpecEnv = FrameProcessor_resume
   \<and> fpProcess exampleSpecEnv = FrameProcessor_process
   \<and> active midUtterance
   \<and> listening exampleMic
   \<and> segmenterState midUtterance = ActiveSpeech 0
   \<and> length (utteranceBuffer midUtterance) = 3
   \<and> listening (snd (MicVAD_pause exampleSpecEnv exampleMic)) = False
   \<and> processFrame exampleSpecEnv
        (snd (AudioNodeVAD_pause exampleSpecEnv (initialisedNode exampleSpecEnv [] midUtterance)))
        (samples exampleFrame) ()
      = (None,
         snd (AudioNodeVAD_pause exampleSpecEnv (initialisedNode exampleSpecEnv [] midUtterance)),
         ())
   \<and> MicVAD_start exampleSpecEnv (snd (MicVAD_pause exampleSpecEnv exampleMic))
      = (None, exampleMic)"
proof -
  have h: "audioNodeVAD exampleMic = Some (initialisedNode exampleSpecEnv [] midUtterance)"
    "frameProcessor (initialisedNode exampleSpecEnv [] midUtterance) = Some midUtterance"
    "fpPause exampleSpecEnv = FrameProcessor_pause"
    "fpResume exampleSpecEnv = FrameProcessor_resume"
    "fpProcess exampleSpecEnv = FrameProcessor_process"
    by (simp_all add: exampleMic_def initialised_def initialisedNode_def exampleSpecEnv_def
          specEnv_def)
  have m: "active midUtterance" "segmenterState midUtterance = ActiveSpeech 0"
    "length (utteranceBuffer midUtterance) = 3"
    by (simp_all add: midUtterance_eq)
  have l: "listening exampleMic"
    by (simp add: exampleMic_def)
  note t = pause_and_start_keep_state [OF h, of "samples exampleFrame" "()"]
  from t have p: "listening (snd (MicVAD_pause exampleSpecEnv exampleMic)) = False"
    by simp
  from t m l have s:
    "MicVAD_start exampleSpecEnv (snd (MicVAD_pause exampleSpecEnv exampleMic))
       = (None, exampleMic)"
    by blast
  from t have f: "processFrame exampleSpecEnv
        (snd (AudioNodeVAD_pause exampleSpecEnv (initialisedNode exampleSpecEnv [] midUtterance)))
        (samples exampleFrame) ()
      = (None,
         snd (AudioNodeVAD_pause exampleSpecEnv (initialisedNode exampleSpecEnv [] midUtterance)),
         ())"
    by blast
  from h m l p s f show ?thesis
    by blast
qed

end
